theory Spec2Isabelle
  imports Complex_Main
begin

section \<open>Numeric conventions\<close>

text \<open>
  Python floats are modelled as mathematical reals: every formula of the services is
  taken at exact precision. Python ints are unbounded and are modelled as \<open>int\<close>.
\<close>

definition mean :: "real list \<Rightarrow> real" where
  \<comment> \<open>\<open>np.mean\<close> on a non-empty sequence\<close>
  "mean xs = sum_list xs / real (length xs)"

definition np_std :: "real list \<Rightarrow> real" where
  \<comment> \<open>\<open>np.std\<close>: the population standard deviation\<close>
  "np_std xs = sqrt (mean (map (\<lambda>x. (x - mean xs)\<^sup>2) xs))"

definition rint :: "real \<Rightarrow> int" where
  \<comment> \<open>round to the nearest integer, halves to the even neighbour\<close>
  "rint x =
     (let f = \<lfloor>x\<rfloor>; d = x - of_int f
      in if d < 1 / 2 then f
         else if 1 / 2 < d then f + 1
         else if even f then f else f + 1)"

definition round2 :: "real \<Rightarrow> real" where
  \<comment> \<open>\<open>round(x, 2)\<close>\<close>
  "round2 x = of_int (rint (x * 100)) / 100"

section \<open>Bounded windows\<close>

text \<open>
  \<open>collections.deque(maxlen=m)\<close>: an append at the right end evicts the oldest entry
  once the capacity is exceeded; \<open>extend\<close> appends the items one by one.
\<close>

definition deque_append :: "nat \<Rightarrow> 'a list \<Rightarrow> 'a \<Rightarrow> 'a list" where
  "deque_append m d x = (let ys = d @ [x] in drop (length ys - m) ys)"

definition deque_extend :: "nat \<Rightarrow> 'a list \<Rightarrow> 'a list \<Rightarrow> 'a list" where
  "deque_extend m d xs = foldl (deque_append m) d xs"

definition neg_idx :: "'a list \<Rightarrow> nat \<Rightarrow> 'a" where
  \<comment> \<open>\<open>h[-i]\<close>, read only where \<open>1 \<le> i \<le> len(h)\<close>\<close>
  "neg_idx h i = h ! (length h - i)"

definition last_n :: "nat \<Rightarrow> 'a list \<Rightarrow> 'a list" where
  \<comment> \<open>the slice \<open>h[-n:]\<close>; \<open>h[-0:]\<close> is the whole list\<close>
  "last_n n h = (if n = 0 then h else drop (length h - n) h)"

section \<open>Clustering service\<close>

datatype py_error = IndexError

subsection \<open>Keyword extraction\<close>

text \<open>
  Texts are strings over the ASCII alphabet. \<open>str.lower\<close> maps \<open>A..Z\<close> to \<open>a..z\<close>.
  The pattern \<open>\b[a-zA-Z]{4,}\b\<close> matches exactly the maximal runs of word characters
  (letters, digits, underscore) that consist of letters only and have at least four of
  them: a match starts and ends at a word boundary, and \<open>findall\<close> returns the matches
  from left to right.
\<close>

definition is_upper :: "char \<Rightarrow> bool" where
  "is_upper c = (let n = (of_char c :: nat) in 65 \<le> n \<and> n \<le> 90)"

definition is_lower :: "char \<Rightarrow> bool" where
  "is_lower c = (let n = (of_char c :: nat) in 97 \<le> n \<and> n \<le> 122)"

definition is_digit :: "char \<Rightarrow> bool" where
  "is_digit c = (let n = (of_char c :: nat) in 48 \<le> n \<and> n \<le> 57)"

definition is_letter :: "char \<Rightarrow> bool" where
  "is_letter c = (is_lower c \<or> is_upper c)"

definition is_word_char :: "char \<Rightarrow> bool" where
  "is_word_char c = (is_letter c \<or> is_digit c \<or> c = CHR ''_'')"

definition lower_char :: "char \<Rightarrow> char" where
  "lower_char c = (if is_upper c then char_of ((of_char c :: nat) + 32) else c)"

definition lower :: "string \<Rightarrow> string" where
  "lower s = map lower_char s"

fun word_runs :: "string \<Rightarrow> string \<Rightarrow> string list" where
  "word_runs acc [] = (if acc = [] then [] else [rev acc])"
| "word_runs acc (c # cs) =
     (if is_word_char c then word_runs (c # acc) cs
      else (if acc = [] then [] else [rev acc]) @ word_runs [] cs)"

definition findall_words :: "string \<Rightarrow> string list" where
  \<comment> \<open>\<open>re.findall(r'\b[a-zA-Z]{4,}\b', s)\<close>\<close>
  "findall_words s = filter (\<lambda>w. 4 \<le> length w \<and> list_all is_letter w) (word_runs [] s)"

definition stop_words :: "string list" where
  "stop_words = [''this'', ''that'', ''with'', ''from'', ''have'', ''been'', ''will'',
                 ''just'', ''about'']"

text \<open>
  \<open>word_freq\<close> is a dict: its items are kept in insertion order, and an update of a
  present key leaves the key in its place.
\<close>

fun bump :: "(string \<times> nat) list \<Rightarrow> string \<Rightarrow> (string \<times> nat) list" where
  \<comment> \<open>\<open>word_freq[word] = word_freq.get(word, 0) + 1\<close>\<close>
  "bump [] w = [(w, 1)]"
| "bump ((k, n) # kvs) w = (if k = w then (k, n + 1) # kvs else (k, n) # bump kvs w)"

definition count_words :: "(string \<times> nat) list \<Rightarrow> string \<Rightarrow> (string \<times> nat) list" where
  \<comment> \<open>the inner loop over the words of one text\<close>
  "count_words word_freq text =
     foldl (\<lambda>wf word. if word \<notin> set stop_words then bump wf word else wf)
       word_freq (findall_words (lower text))"

definition sorted_desc :: "(string \<times> nat) list \<Rightarrow> (string \<times> nat) list" where
  \<comment> \<open>\<open>sorted(items, key=lambda x: x[1], reverse=True)\<close>: a stable sort, and
      \<open>reverse=True\<close> keeps items of equal key in their original order\<close>
  "sorted_desc items = sort_key (\<lambda>x. - int (snd x)) items"

definition extract_keywords :: "string list \<Rightarrow> string list" where
  "extract_keywords texts =
     (let word_freq = foldl count_words [] texts;
          sorted_words = sorted_desc word_freq
      in map fst (take 5 sorted_words))"

text \<open>The ranking of the counted words: the vocabulary of the keyword properties.\<close>

definition counted_tokens :: "string list \<Rightarrow> string list" where
  \<comment> \<open>the words the scan counts, over all texts, in the order of the scan\<close>
  "counted_tokens texts =
     concat (map (\<lambda>text. filter (\<lambda>word. word \<notin> set stop_words) (findall_words (lower text)))
       texts)"

definition first_pos :: "'a list \<Rightarrow> 'a \<Rightarrow> nat" where
  \<comment> \<open>the position at which the scan first meets a word\<close>
  "first_pos ws w = length (takeWhile (\<lambda>x. x \<noteq> w) ws)"

definition ranks_before :: "string list \<Rightarrow> string \<Rightarrow> string \<Rightarrow> bool" where
  \<comment> \<open>higher frequency first; among equal frequencies, the word met first\<close>
  "ranks_before ws a b =
     (count_list ws b < count_list ws a
      \<or> (count_list ws a = count_list ws b \<and> first_pos ws a < first_pos ws b))"

subsection \<open>Cluster identifiers\<close>

definition digit_char :: "nat \<Rightarrow> char" where
  "digit_char d = char_of (48 + d)"

function show_nat :: "nat \<Rightarrow> string" where
  "show_nat n = (if n < 10 then [digit_char n] else show_nat (n div 10) @ [digit_char (n mod 10)])"
  by pat_completeness auto
termination
  by (relation "measure id") auto

declare show_nat.simps [simp del]

definition show_int :: "int \<Rightarrow> string" where
  \<comment> \<open>the decimal rendering of an integer label inside an f-string\<close>
  "show_int i = (if i < 0 then CHR ''-'' # show_nat (nat (- i)) else show_nat (nat i))"

definition cluster_id_of :: "int \<Rightarrow> string" where
  \<comment> \<open>\<open>f"cluster-{label}"\<close>\<close>
  "cluster_id_of label = ''cluster-'' @ show_int label"

subsection \<open>Cluster summaries\<close>

record ClusterInfo =
  clusterId :: string
  keywords_f :: "string list"
  size_f :: int
  avgSentiment :: real
  growthRate :: real
  volatilityIndex :: real

record ClusteringService =
  previous_sizes :: "string \<rightharpoonup> int"

definition clustering_init :: ClusteringService where
  "clustering_init = \<lparr>previous_sizes = Map.empty\<rparr>"

definition cluster ::
  "(real list list \<Rightarrow> int list option) \<Rightarrow> real list list \<Rightarrow> int list \<times> int" where
  \<comment> \<open>\<open>fit_predict\<close> is the external clusterer; \<open>None\<close> stands for a raised exception\<close>
  "cluster fit_predict embeddings =
     (if length embeddings < 3 then (replicate (length embeddings) 0, 0)
      else case fit_predict embeddings of
             Some labels \<Rightarrow>
               (labels, int (length (remdups labels)) - (if - 1 \<in> set labels then 1 else 0))
           | None \<Rightarrow> (replicate (length embeddings) 0, 0))"

definition indices_of :: "int list \<Rightarrow> int \<Rightarrow> nat list" where
  \<comment> \<open>\<open>np.where(labels == label)[0]\<close>\<close>
  "indices_of labels label = filter (\<lambda>i. labels ! i = label) [0 ..< length labels]"

definition gather :: "'a list \<Rightarrow> nat list \<Rightarrow> py_error + 'a list" where
  \<comment> \<open>\<open>[xs[i] for i in indices]\<close>\<close>
  "gather xs indices =
     (if list_all (\<lambda>i. i < length xs) indices then Inr (map (\<lambda>i. xs ! i) indices)
      else Inl IndexError)"

definition summarize_label ::
  "ClusteringService \<Rightarrow> int list \<Rightarrow> string list \<Rightarrow> real list \<Rightarrow> int
     \<Rightarrow> py_error + ClusterInfo \<times> ClusteringService" where
  \<comment> \<open>the body of the loop of \<open>get_cluster_info\<close> for a label other than \<open>-1\<close>\<close>
  "summarize_label self labels texts sentiments label =
     (let indices = indices_of labels label in
      case gather texts indices of
        Inl e \<Rightarrow> Inl e
      | Inr cluster_texts \<Rightarrow>
         (case gather sentiments indices of
            Inl e \<Rightarrow> Inl e
          | Inr cluster_sentiments \<Rightarrow>
              let avg_sentiment = mean cluster_sentiments;
                  keywords = extract_keywords cluster_texts;
                  size = int (length indices);
                  cluster_id = cluster_id_of label;
                  prev_size = (case previous_sizes self cluster_id of
                                 None \<Rightarrow> 0 | Some p \<Rightarrow> p);
                  growth_rate =
                    real_of_int (size - prev_size) / real_of_int (max prev_size 1) * 100;
                  volatility = np_std cluster_sentiments;
                  self' = self\<lparr>previous_sizes := (previous_sizes self)(cluster_id \<mapsto> size)\<rparr>
              in Inr (\<lparr>clusterId = cluster_id, keywords_f = keywords, size_f = size,
                       avgSentiment = avg_sentiment, growthRate = growth_rate,
                       volatilityIndex = volatility\<rparr>, self')))"

fun cluster_loop ::
  "ClusteringService \<Rightarrow> int list \<Rightarrow> string list \<Rightarrow> real list \<Rightarrow> int list
     \<Rightarrow> ClusterInfo list \<Rightarrow> (py_error + ClusterInfo list) \<times> ClusteringService" where
  "cluster_loop self labels texts sentiments [] clusters = (Inr clusters, self)"
| "cluster_loop self labels texts sentiments (label # rest) clusters =
     (if label = - 1 then cluster_loop self labels texts sentiments rest clusters
      else case summarize_label self labels texts sentiments label of
             Inl e \<Rightarrow> (Inl e, self)
           | Inr (c, self') \<Rightarrow>
               cluster_loop self' labels texts sentiments rest (clusters @ [c]))"

definition get_cluster_info ::
  "int list \<Rightarrow> ClusteringService \<Rightarrow> int list \<Rightarrow> string list \<Rightarrow> real list
     \<Rightarrow> (py_error + ClusterInfo list) \<times> ClusteringService" where
  \<comment> \<open>\<open>unique_labels\<close> lists \<open>set(labels)\<close> in the order the loop visits it\<close>
  "get_cluster_info unique_labels self labels texts sentiments =
     cluster_loop self labels texts sentiments unique_labels []"

section \<open>Anomaly service\<close>

record AdvancedAnomalyService =
  window_size :: nat
  contamination :: real
  volume_history :: "int list"
  sentiment_accel_history :: "real list"
  growth_rate_history :: "real list"
  mean_volume :: real
  std_volume :: real
  feature_buffer :: "real list list"
  min_samples_for_iforest :: nat
  use_fallback :: bool

definition anomaly_init :: "bool \<Rightarrow> bool \<Rightarrow> nat \<Rightarrow> real \<Rightarrow> AdvancedAnomalyService" where
  \<comment> \<open>\<open>sklearn_available\<close> is the module flag; \<open>init_ok\<close> says that constructing the
      scaler and the forest raised no exception\<close>
  "anomaly_init sklearn_available init_ok ws c =
     \<lparr>window_size = ws, contamination = c, volume_history = [],
      sentiment_accel_history = [], growth_rate_history = [],
      mean_volume = 0, std_volume = 1, feature_buffer = [],
      min_samples_for_iforest = 10,
      use_fallback = (if \<not> (\<not> sklearn_available) then \<not> init_ok else True)\<rparr>"

definition detect_zscore :: "AdvancedAnomalyService \<Rightarrow> int \<Rightarrow> real \<times> AdvancedAnomalyService" where
  "detect_zscore self current_volume =
     (if length (volume_history self) < 5 then (0, self)
      else
        let m = mean (map real_of_int (volume_history self));
            s = np_std (map real_of_int (volume_history self));
            self' = self\<lparr>mean_volume := m, std_volume := s\<rparr>
        in if s < 1 / 10 then (0, self')
           else
             let z_score = (real_of_int current_volume - m) / s;
                 anomaly_score = min 100 (max 0 (\<bar>z_score\<bar> / 3 * 100))
             in (round2 anomaly_score, self'))"

definition detect :: "AdvancedAnomalyService \<Rightarrow> int \<Rightarrow> real \<times> AdvancedAnomalyService" where
  "detect self current_volume = detect_zscore self current_volume"

definition extract_features :: "int \<Rightarrow> real \<Rightarrow> real \<Rightarrow> real list" where
  "extract_features volume sentiment_accel growth_rate =
     [real_of_int volume, sentiment_accel, growth_rate]"

definition detect_advanced ::
  "(real list list \<Rightarrow> real option) \<Rightarrow> AdvancedAnomalyService \<Rightarrow> int \<Rightarrow> real \<Rightarrow> real
     \<Rightarrow> real \<times> AdvancedAnomalyService" where
  \<comment> \<open>\<open>forest\<close> is the external model: from the feature buffer (standardised, fitted on
      all rows but the last) to the raw score of the last row; \<open>None\<close> stands for an
      exception raised inside the \<open>try\<close> block\<close>
  "detect_advanced forest self current_volume sentiment_acceleration cluster_growth_rate =
     (let self1 = self\<lparr>
            volume_history := deque_append (window_size self) (volume_history self) current_volume,
            sentiment_accel_history :=
              deque_append (window_size self) (sentiment_accel_history self) sentiment_acceleration,
            growth_rate_history :=
              deque_append (window_size self) (growth_rate_history self) cluster_growth_rate\<rparr>;
          features = extract_features current_volume sentiment_acceleration cluster_growth_rate
      in if \<not> use_fallback self1
            \<and> min_samples_for_iforest self1 \<le> length (volume_history self1)
         then
           let buf = feature_buffer self1 @ [features];
               buf' = (if window_size self1 < length buf
                       then last_n (window_size self1) buf else buf);
               self2 = self1\<lparr>feature_buffer := buf'\<rparr>
           in if min_samples_for_iforest self2 \<le> length buf'
              then (case forest buf' of
                      Some anomaly_score_raw \<Rightarrow>
                        (round2 (max 0 (min 100 ((1 / 2 - anomaly_score_raw) * 200))), self2)
                    | None \<Rightarrow> detect_zscore (self2\<lparr>use_fallback := True\<rparr>) current_volume)
              else detect_zscore self2 current_volume
         else detect_zscore self1 current_volume)"

definition reset :: "bool \<Rightarrow> bool \<Rightarrow> AdvancedAnomalyService \<Rightarrow> AdvancedAnomalyService" where
  \<comment> \<open>the flags are those of \<open>anomaly_init\<close>\<close>
  "reset sklearn_available init_ok self =
     (let self1 = self\<lparr>volume_history := [], sentiment_accel_history := [],
                         growth_rate_history := [], feature_buffer := [],
                         mean_volume := 0, std_volume := 1\<rparr>
      in if \<not> use_fallback self1 \<and> sklearn_available
         then (if init_ok then self1 else self1\<lparr>use_fallback := True\<rparr>)
         else self1)"

fun batch_loop ::
  "(real list list \<Rightarrow> real option) \<Rightarrow> AdvancedAnomalyService \<Rightarrow> int list \<Rightarrow> real list
     \<Rightarrow> real list \<Rightarrow> nat \<Rightarrow> real list \<Rightarrow> real list \<times> AdvancedAnomalyService" where
  "batch_loop forest self [] sas grs i scores = (scores, self)"
| "batch_loop forest self (volume # rest) sas grs i scores =
     (let (score, self') =
            detect_advanced forest self volume
              (if i < length sas then sas ! i else 0)
              (if i < length grs then grs ! i else 0)
      in batch_loop forest self' rest sas grs (i + 1) (scores @ [score]))"

definition detect_batch ::
  "(real list list \<Rightarrow> real option) \<Rightarrow> AdvancedAnomalyService \<Rightarrow> int list
     \<Rightarrow> real list option \<Rightarrow> real list option \<Rightarrow> real list \<times> AdvancedAnomalyService" where
  "detect_batch forest self volumes sentiment_accelerations growth_rates =
     (let sas = (case sentiment_accelerations of
                   None \<Rightarrow> replicate (length volumes) 0 | Some xs \<Rightarrow> xs);
          grs = (case growth_rates of
                   None \<Rightarrow> replicate (length volumes) 0 | Some xs \<Rightarrow> xs)
      in batch_loop forest self volumes sas grs 0 [])"

text \<open>Two stand-ins for the external model: one that raises, one that returns a fixed score.\<close>

definition forest_raising :: "real list list \<Rightarrow> real option" where
  "forest_raising buf = None"

definition forest_scoring :: "real \<Rightarrow> real list list \<Rightarrow> real option" where
  "forest_scoring s buf = Some s"

datatype DetectorMode = Multivariate | Fallback

definition mode :: "AdvancedAnomalyService \<Rightarrow> DetectorMode" where
  "mode self = (if use_fallback self then Fallback else Multivariate)"

section \<open>Escalation service\<close>

record EscalationService =
  sentiment_history :: "real list"
  esc_volume_history :: "int list"

definition escalation_init :: EscalationService where
  "escalation_init = \<lparr>sentiment_history = [], esc_volume_history = []\<rparr>"

record Metrics =
  sentimentAcceleration :: real
  clusterGrowthRate :: real
  narrativeSpreadSpeed :: real

definition first_derivative :: "real list \<Rightarrow> real list" where
  \<comment> \<open>the loop \<open>for i in range(1, min(5, len(h)))\<close> collecting \<open>h[-i] - h[-i-1]\<close>\<close>
  "first_derivative h =
     map (\<lambda>i. neg_idx h i - neg_idx h (i + 1)) [1 ..< min 5 (length h)]"

definition compute_sentiment_acceleration ::
  "EscalationService \<Rightarrow> real list \<Rightarrow> real \<times> EscalationService" where
  "compute_sentiment_acceleration self sentiments =
     (if length sentiments < 2 then (0, self)
      else
        let h = deque_extend 20 (sentiment_history self) sentiments;
            self' = self\<lparr>sentiment_history := h\<rparr>;
            recent_avg = mean (last_n 10 h);
            rest = (if recent_avg < - (3 / 10)
                    then min 100 (\<bar>recent_avg\<bar> * 100) else 0)
        in if 5 \<le> length h
           then (if first_derivative h \<noteq> []
                 then (min 100 (\<bar>mean (first_derivative h)\<bar> * 200), self')
                 else (rest, self'))
           else (rest, self'))"

definition compute_cluster_growth_rate :: "ClusterInfo list \<Rightarrow> real" where
  "compute_cluster_growth_rate clusters =
     (if clusters = [] then 0 else mean (map growthRate clusters))"

definition compute_narrative_spread_speed :: "ClusterInfo list \<Rightarrow> int \<Rightarrow> real" where
  "compute_narrative_spread_speed clusters volume =
     (if clusters = [] \<or> volume = 0 then 0
      else
        let num_clusters = length clusters;
            total_posts = sum_list (map size_f clusters);
            cluster_factor = min 50 (real num_clusters * 10);
            size_factor = min 30 (real_of_int total_posts / real_of_int volume * 30);
            viral_factor =
              min 20 (real (length (filter (\<lambda>c. 50 < growthRate c) clusters)) * 5)
        in cluster_factor + size_factor + viral_factor)"

definition compute_metrics ::
  "EscalationService \<Rightarrow> real list \<Rightarrow> ClusterInfo list \<Rightarrow> int \<Rightarrow> Metrics \<times> EscalationService" where
  "compute_metrics self sentiments clusters current_volume =
     (let (sentiment_acceleration, self') = compute_sentiment_acceleration self sentiments;
          cluster_growth_rate = compute_cluster_growth_rate clusters;
          narrative_spread_speed = compute_narrative_spread_speed clusters current_volume
      in (\<lparr>sentimentAcceleration = sentiment_acceleration,
           clusterGrowthRate = cluster_growth_rate,
           narrativeSpreadSpeed = narrative_spread_speed\<rparr>, self'))"

text \<open>
  The reading of the sentiment acceleration as a mean of absolute differences, to be
  compared with \<open>compute_sentiment_acceleration\<close>.
\<close>

definition claimed_mean_abs_delta :: "real list \<Rightarrow> real" where
  "claimed_mean_abs_delta h =
     min 100 (mean (map (\<lambda>i. \<bar>neg_idx h i - neg_idx h (i + 1)\<bar>) [1, 2, 3, 4]) * 200)"

section \<open>Analyze router\<close>

record PostInput =
  id_f :: string
  text_f :: string

record EnrichedPost =
  ep_id :: string
  ep_text :: string
  sentimentScore :: real
  embedding :: "real list"

record MetricsOutput = Metrics +
  anomalyScore :: real

record AnalyzeResponse =
  enrichedPosts :: "EnrichedPost list"
  clusters :: "ClusterInfo list"
  metrics :: MetricsOutput

text \<open>The external collaborators of a request.\<close>

record Providers =
  model_encode :: "string list \<Rightarrow> real list list"
  classifier :: "string list \<Rightarrow> (string \<times> real) list"
  fit_predict :: "real list list \<Rightarrow> int list option"
  set_order :: "int list \<Rightarrow> int list"

text \<open>Providers that ignore the texts: fixed classifier results, one-dimensional embeddings.\<close>

definition fixed_providers :: "(string \<times> real) list \<Rightarrow> Providers" where
  "fixed_providers results =
     \<lparr>model_encode = map (\<lambda>t. [0]), classifier = (\<lambda>ts. results),
      fit_predict = (\<lambda>e. None), set_order = remdups\<rparr>"

definition encode :: "Providers \<Rightarrow> string list \<Rightarrow> real list list" where
  "encode env texts = (if texts = [] then [] else model_encode env texts)"

definition analyze :: "Providers \<Rightarrow> string list \<Rightarrow> real list" where
  "analyze env texts =
     (if texts = [] then []
      else map (\<lambda>(label, score). if label = ''NEGATIVE'' then - score else score)
             (classifier env (map (take 512) texts)))"

record Services =
  clustering_service :: ClusteringService
  anomaly_service :: AdvancedAnomalyService
  escalation_service :: EscalationService

definition services_init :: "bool \<Rightarrow> bool \<Rightarrow> Services" where
  "services_init sklearn_available init_ok =
     \<lparr>clustering_service = clustering_init,
      anomaly_service = anomaly_init sklearn_available init_ok 50 (1 / 10),
      escalation_service = escalation_init\<rparr>"

definition enrich :: "PostInput list \<Rightarrow> real list list \<Rightarrow> real list \<Rightarrow> EnrichedPost list" where
  "enrich posts embeddings sentiments =
     map (\<lambda>i. \<lparr>ep_id = id_f (posts ! i), ep_text = text_f (posts ! i),
               sentimentScore = (if i < length sentiments then sentiments ! i else 0),
               embedding = (if i < length embeddings then embeddings ! i else [])\<rparr>)
       [0 ..< length posts]"

definition analyze_posts ::
  "Providers \<Rightarrow> Services \<Rightarrow> PostInput list \<Rightarrow> (py_error + AnalyzeResponse) \<times> Services" where
  "analyze_posts env st posts =
     (if posts = [] then
        (Inr \<lparr>enrichedPosts = [], clusters = [],
              metrics = \<lparr>sentimentAcceleration = 0, clusterGrowthRate = 0,
                         narrativeSpreadSpeed = 0, anomalyScore = 0\<rparr>\<rparr>, st)
      else
        let texts = map text_f posts;
            embeddings = encode env texts;
            sentiments = analyze env texts;
            (labels, n_clusters) = cluster (fit_predict env) embeddings;
            (res, cs) = get_cluster_info (set_order env labels) (clustering_service st)
                          labels texts sentiments
        in case res of
             Inl e \<Rightarrow> (Inl e, st\<lparr>clustering_service := cs\<rparr>)
           | Inr cl \<Rightarrow>
               let current_volume = int (length posts);
                   (anomaly_score, an) = detect (anomaly_service st) current_volume;
                   (escalation_metrics, es) =
                     compute_metrics (escalation_service st) sentiments cl current_volume
               in (Inr \<lparr>enrichedPosts = enrich posts embeddings sentiments,
                        clusters = cl,
                        metrics = \<lparr>sentimentAcceleration = sentimentAcceleration escalation_metrics,
                                   clusterGrowthRate = clusterGrowthRate escalation_metrics,
                                   narrativeSpreadSpeed = narrativeSpreadSpeed escalation_metrics,
                                   anomalyScore = anomaly_score\<rparr>\<rparr>,
                   \<lparr>clustering_service = cs, anomaly_service = an, escalation_service = es\<rparr>))"

fun serve :: "Providers \<Rightarrow> Services \<Rightarrow> PostInput list list \<Rightarrow> (py_error + AnalyzeResponse) list" where
  \<comment> \<open>the outcomes of a sequence of requests served by one process\<close>
  "serve env st [] = []"
| "serve env st (posts # rest) =
     (let (r, st') = analyze_posts env st posts in r # serve env st' rest)"

section \<open>Properties of the escalation service\<close>

lemma deque_append_length: "length d \<le> m \<Longrightarrow> length (deque_append m d x) \<le> m"
  by (simp add: deque_append_def Let_def)

lemma deque_append_app:
  assumes "length d \<le> m"
  shows "drop (length (deque_append m d x @ xs) - m) (deque_append m d x @ xs)
           = drop (length (d @ x # xs) - m) (d @ x # xs)"
proof (cases "length d < m")
  case True
  then have "deque_append m d x = d @ [x]"
    by (simp add: deque_append_def Let_def)
  then show ?thesis by simp
next
  case False
  with assms have m: "m = length d" by simp
  have da: "deque_append m d x @ xs = drop 1 (d @ x # xs)"
    by (cases d) (simp_all add: deque_append_def Let_def m)
  have "length (drop 1 (d @ x # xs)) - m + 1 = length (d @ x # xs) - m"
    by (simp add: m)
  then show ?thesis
    unfolding da by (metis drop_drop)
qed

lemma deque_extend_eq:
  "length d \<le> m \<Longrightarrow> deque_extend m d xs = drop (length (d @ xs) - m) (d @ xs)"
proof (induction xs arbitrary: d)
  case Nil
  then show ?case by (simp add: deque_extend_def)
next
  case (Cons x xs)
  have "deque_extend m d (x # xs) = deque_extend m (deque_append m d x) xs"
    by (simp add: deque_extend_def)
  also have "\<dots> = drop (length (deque_append m d x @ xs) - m) (deque_append m d x @ xs)"
    by (rule Cons.IH [OF deque_append_length [OF Cons.prems]])
  also have "\<dots> = drop (length (d @ x # xs) - m) (d @ x # xs)"
    by (rule deque_append_app [OF Cons.prems])
  finally show ?case .
qed

lemma first_derivative_5:
  assumes "5 \<le> length h"
  shows "first_derivative h =
           [neg_idx h 1 - neg_idx h 2, neg_idx h 2 - neg_idx h 3,
            neg_idx h 3 - neg_idx h 4, neg_idx h 4 - neg_idx h 5]"
proof -
  from assms have "min 5 (length h) = 5" by simp
  moreover have "[1 ..< 5] = [1, 2, 3, 4::nat]" by (simp add: upt_rec)
  moreover have "Suc 1 = 2" "Suc 2 = 3" "Suc 3 = 4" "Suc 4 = 5" by simp_all
  ultimately show ?thesis by (simp add: first_derivative_def del: One_nat_def)
qed

lemma compute_metrics_parts:
  "snd (compute_metrics self sentiments cls v) =
     snd (compute_sentiment_acceleration self sentiments)"
  "sentimentAcceleration (fst (compute_metrics self sentiments cls v)) =
     fst (compute_sentiment_acceleration self sentiments)"
  "clusterGrowthRate (fst (compute_metrics self sentiments cls v)) =
     compute_cluster_growth_rate cls"
  "narrativeSpreadSpeed (fst (compute_metrics self sentiments cls v)) =
     compute_narrative_spread_speed cls v"
  by (simp_all add: compute_metrics_def Let_def split: prod.splits)

lemma compute_sentiment_acceleration_short:
  "length sentiments < 2 \<Longrightarrow> compute_sentiment_acceleration self sentiments = (0, self)"
  by (simp add: compute_sentiment_acceleration_def)

lemma compute_sentiment_acceleration_window:
  assumes "length (sentiment_history self) \<le> 20"
  shows "sentiment_history (snd (compute_sentiment_acceleration self sentiments)) =
           (if 2 \<le> length sentiments
            then last_n 20 (sentiment_history self @ sentiments)
            else sentiment_history self)"
  using deque_extend_eq [OF assms, of sentiments]
  by (simp add: compute_sentiment_acceleration_def Let_def last_n_def)

text \<open>
  C9. For a non-empty cluster list and a volume other than zero, the narrative spread
  speed is the sum of the three capped factors (cluster count times 10 capped at 50, size
  ratio times 30 capped at 30, number of clusters growing by more than 50 times 5 capped
  at 20), with no clamp on the sum; it is what \<open>compute_metrics\<close> reports, and one
  cluster of growth rate 80 and size 10 at volume 10 gives 45.
\<close>

theorem narrative_spread_speed_formula:
  "cls \<noteq> [] \<Longrightarrow> volume \<noteq> 0 \<Longrightarrow>
   compute_narrative_spread_speed cls volume =
       min 50 (real (length cls) * 10)
     + min 30 (real_of_int (sum_list (map size_f cls)) / real_of_int volume * 30)
     + min 20 (real (length (filter (\<lambda>c. 50 < growthRate c) cls)) * 5)
   \<and> narrativeSpreadSpeed (fst (compute_metrics self sentiments cls volume)) =
       compute_narrative_spread_speed cls volume
   \<and> (cls = [c] \<and> growthRate c = 80 \<and> size_f c = 10 \<and> volume = 10 \<longrightarrow>
       compute_narrative_spread_speed cls volume = 45)"
  by (auto simp: compute_narrative_spread_speed_def compute_metrics_parts Let_def)

theorem narrative_spread_speed_formula_witness:
  "compute_narrative_spread_speed
     [\<lparr>clusterId = ''cluster-0'', keywords_f = [], size_f = 10, avgSentiment = 0,
       growthRate = 80, volatilityIndex = 0\<rparr>] 10 = 45"
  using narrative_spread_speed_formula
    [where cls = "[\<lparr>clusterId = ''cluster-0'', keywords_f = [], size_f = 10,
                         avgSentiment = 0, growthRate = 80, volatilityIndex = 0\<rparr>]"
       and volume = 10
       and c = "\<lparr>clusterId = ''cluster-0'', keywords_f = [], size_f = 10,
                 avgSentiment = 0, growthRate = 80, volatilityIndex = 0\<rparr>"]
  by simp

text \<open>
  C6, as stated, fails: a call with a single sentiment on a fresh service leaves the
  window empty, where the claim has it hold that sentiment.
\<close>

theorem compute_metrics_window_counterexample:
  "sentiment_history (snd (compute_metrics escalation_init [1 / 2] [] 1))
     \<noteq> last_n 20 (sentiment_history escalation_init @ [1 / 2])"
  by (simp add: compute_metrics_def compute_sentiment_acceleration_def escalation_init_def
        last_n_def split: prod.splits)

text \<open>
  C6, amended. A call to \<open>compute_metrics\<close> with at least two sentiments leaves the
  window holding the last 20 entries of the prior window followed by the inputs; a call
  with fewer than two sentiments returns 0 for the sentiment acceleration and leaves the
  window as it was. The window never exceeds its capacity.
\<close>

theorem compute_metrics_window:
  "length (sentiment_history self) \<le> 20 \<Longrightarrow>
   (let r = compute_metrics self sentiments cls v in
      (2 \<le> length sentiments \<longrightarrow>
         sentiment_history (snd r) = last_n 20 (sentiment_history self @ sentiments))
    \<and> (length sentiments < 2 \<longrightarrow>
         sentiment_history (snd r) = sentiment_history self
         \<and> sentimentAcceleration (fst r) = 0)
    \<and> length (sentiment_history (snd r)) \<le> 20)"
  using compute_sentiment_acceleration_window [of self sentiments]
    compute_sentiment_acceleration_short [of sentiments self]
  by (auto simp add: compute_metrics_parts Let_def last_n_def)

theorem compute_metrics_window_witness:
  "sentiment_history (snd (compute_metrics escalation_init [1 / 2, 1 / 4] [] 2)) = [1 / 2, 1 / 4]
   \<and> sentiment_history (snd (compute_metrics escalation_init [1 / 2] [] 1)) = []
   \<and> sentimentAcceleration (fst (compute_metrics escalation_init [1 / 2] [] 1)) = 0"
  using compute_metrics_window [of escalation_init "[1 / 2, 1 / 4]" "[]" 2]
        compute_metrics_window [of escalation_init "[1 / 2]" "[]" 1]
  by (simp add: escalation_init_def last_n_def Let_def)

lemma five_zeros:
  "snd (compute_metrics escalation_init [0, 0, 0, 0, 0] [] 5) =
     \<lparr>sentiment_history = [0, 0, 0, 0, 0], esc_volume_history = []\<rparr>"
  by (simp add: compute_metrics_def compute_sentiment_acceleration_def escalation_init_def
        deque_extend_def deque_append_def Let_def split: prod.splits)

text \<open>
  C3, as stated, fails. On the inputs 0, 1, 0, 1, 0 the window holds five values, the
  mean of the absolute differences scaled by 200 and capped is 100, and the service
  returns 0. And on a window of five zeros a call with the single sentiment 1 returns 0,
  where the claim, with the input appended, gives 50.
\<close>

theorem sentiment_acceleration_counterexample:
  "5 \<le> length (last_n 20 (sentiment_history escalation_init @ [0, 1, 0, 1, 0]))
   \<and> sentimentAcceleration (fst (compute_metrics escalation_init [0, 1, 0, 1, 0] [] 5)) = 0
   \<and> claimed_mean_abs_delta (last_n 20 (sentiment_history escalation_init @ [0, 1, 0, 1, 0])) = 100
   \<and> 5 \<le> length (last_n 20
         (sentiment_history (snd (compute_metrics escalation_init [0, 0, 0, 0, 0] [] 5)) @ [1]))
   \<and> sentimentAcceleration
         (fst (compute_metrics (snd (compute_metrics escalation_init [0, 0, 0, 0, 0] [] 5))
                 [1] [] 1)) = 0
   \<and> claimed_mean_abs_delta (last_n 20
         (sentiment_history (snd (compute_metrics escalation_init [0, 0, 0, 0, 0] [] 5)) @ [1]))
       = 50"
  unfolding five_zeros
  by (simp add: compute_metrics_def compute_sentiment_acceleration_def escalation_init_def
        last_n_def deque_extend_def deque_append_def first_derivative_def neg_idx_def
        mean_def claimed_mean_abs_delta_def upt_rec Let_def split: prod.splits)

text \<open>
  C3, amended. For a call to \<open>compute_metrics\<close> with at least two sentiments after which
  the window \<open>h\<close> holds at least five values, the sentiment acceleration is the absolute
  value of the mean of the four first differences over the five most recent entries,
  times 200, capped at 100.
\<close>

theorem sentiment_acceleration_abs_mean:
  assumes "length (sentiment_history self) \<le> 20" and "2 \<le> length sentiments"
    and "h = last_n 20 (sentiment_history self @ sentiments)" and "5 \<le> length h"
  shows "sentimentAcceleration (fst (compute_metrics self sentiments cls v)) =
           min 100 (\<bar>mean [neg_idx h 1 - neg_idx h 2, neg_idx h 2 - neg_idx h 3,
                           neg_idx h 3 - neg_idx h 4, neg_idx h 4 - neg_idx h 5]\<bar> * 200)"
proof -
  have h: "deque_extend 20 (sentiment_history self) sentiments = h"
    using deque_extend_eq [OF assms(1), of sentiments] assms(3) by (simp add: last_n_def)
  have "first_derivative h = [neg_idx h 1 - neg_idx h 2, neg_idx h 2 - neg_idx h 3,
                           neg_idx h 3 - neg_idx h 4, neg_idx h 4 - neg_idx h 5]"
    using first_derivative_5 [OF assms(4)] by simp
  then show ?thesis
    using assms(2,4) h
    by (simp add: compute_metrics_def compute_sentiment_acceleration_def Let_def
          split: prod.splits)
qed

theorem sentiment_acceleration_abs_mean_witness:
  "sentimentAcceleration
     (fst (compute_metrics escalation_init [0, 1 / 10, 2 / 10, 3 / 10, 4 / 10] [] 5)) = 20"
  using sentiment_acceleration_abs_mean
    [of escalation_init "[0, 1 / 10, 2 / 10, 3 / 10, 4 / 10]"
        "[0, 1 / 10, 2 / 10, 3 / 10, 4 / 10]" "[]" 5]
  by (simp add: escalation_init_def last_n_def neg_idx_def mean_def)

section \<open>Properties of the anomaly service\<close>

text \<open>
  C8. The fallback z-score path returns 0 while the volume window holds fewer than five
  samples; otherwise, with \<open>m\<close> the mean and \<open>d\<close> the population standard deviation of
  the window, it returns 0 when \<open>d < 0.1\<close> and else the value
  \<open>|volume - m| / d / 3 * 100\<close> clamped to the range from 0 to 100 and rounded to two
  decimal places.
\<close>

theorem detect_zscore_fallback:
  "(length (volume_history self) < 5 \<longrightarrow> fst (detect_zscore self volume) = 0)
   \<and> (5 \<le> length (volume_history self) \<longrightarrow>
        (let m = mean (map real_of_int (volume_history self));
             d = np_std (map real_of_int (volume_history self))
         in (d < 1 / 10 \<longrightarrow> fst (detect_zscore self volume) = 0)
          \<and> (\<not> d < 1 / 10 \<longrightarrow>
               fst (detect_zscore self volume) =
                 round2 (max 0 (min 100 (\<bar>real_of_int volume - m\<bar> / d / 3 * 100))))))"
proof -
  have clamp: "min 100 (max 0 x) = max 0 (min 100 x)" for x :: real
    by (simp add: min_def max_def)
  have "\<bar>(real_of_int volume - m) / d\<bar> = \<bar>real_of_int volume - m\<bar> / d"
    if "\<not> d < 1 / 10" for m d :: real
    using that by (simp add: abs_divide)
  then show ?thesis
    by (simp add: detect_zscore_def Let_def clamp)
qed

lemma std_sample: "np_std (map real_of_int [0, 4, 0, 4, 0, 4]) = 2"
proof -
  have "mean (map (\<lambda>x. (x - mean (map real_of_int [0, 4, 0, 4, 0, 4]))\<^sup>2)
          (map real_of_int [0, 4, 0, 4, 0, 4])) = 4"
    by (simp add: mean_def power2_eq_square)
  then show ?thesis by (simp add: np_std_def)
qed

lemma round2_50: "round2 50 = 50"
  by (simp add: round2_def rint_def)

theorem detect_zscore_fallback_witness:
  "fst (detect_zscore ((anomaly_init True True 50 (1 / 10))\<lparr>volume_history := [1, 2, 3, 4]\<rparr>) 100) = 0
   \<and> fst (detect_zscore ((anomaly_init True True 50 (1 / 10))\<lparr>volume_history := [10, 10, 10, 10, 10]\<rparr>) 10) = 0
   \<and> fst (detect_zscore ((anomaly_init True True 50 (1 / 10))\<lparr>volume_history := [0, 4, 0, 4, 0, 4]\<rparr>) 5) = 50"
proof -
  let ?s = "anomaly_init True True 50 (1 / 10)"
  have a: "fst (detect_zscore (?s\<lparr>volume_history := [1, 2, 3, 4]\<rparr>) 100) = 0"
    using detect_zscore_fallback [of "?s\<lparr>volume_history := [1, 2, 3, 4]\<rparr>" 100] by simp
  have "np_std (map real_of_int [10, 10, 10, 10, 10]) = 0"
    by (simp add: np_std_def mean_def)
  then have b: "fst (detect_zscore (?s\<lparr>volume_history := [10, 10, 10, 10, 10]\<rparr>) 10) = 0"
    using detect_zscore_fallback [of "?s\<lparr>volume_history := [10, 10, 10, 10, 10]\<rparr>" 10]
    by (simp add: Let_def)
  have "mean (map real_of_int [0, 4, 0, 4, 0, 4]) = 2" by (simp add: mean_def)
  then have c: "fst (detect_zscore (?s\<lparr>volume_history := [0, 4, 0, 4, 0, 4]\<rparr>) 5) = 50"
    using detect_zscore_fallback [of "?s\<lparr>volume_history := [0, 4, 0, 4, 0, 4]\<rparr>" 5]
      std_sample round2_50
    by (simp add: Let_def)
  from a b c show ?thesis by simp
qed

lemma reset_use_fallback:
  "use_fallback (reset sklearn_available init_ok self) =
     (use_fallback self \<or> (sklearn_available \<and> \<not> init_ok))"
  by (simp add: reset_def Let_def)

lemma nineteen_calls_raising:
  "use_fallback (snd (detect_batch forest_raising (anomaly_init True True 50 (1 / 10))
      [10, 10, 10, 10, 10, 10, 10, 10, 10, 10, 10, 10, 10, 10, 10, 10, 10, 10, 10]
      None None))"
  by (simp add: detect_batch_def detect_advanced_def detect_zscore_def anomaly_init_def
        deque_append_def extract_features_def np_std_def mean_def forest_raising_def
        last_n_def Let_def)

text \<open>
  C4, as stated, fails: a detector built with the multivariate capability available falls
  back when the model raises on its nineteenth observation, and \<open>reset\<close> with the
  capability available leaves it in \<open>Fallback\<close>.
\<close>

theorem reset_mode_counterexample:
  "mode (anomaly_init True True 50 (1 / 10)) = Multivariate
   \<and> mode (snd (detect_batch forest_raising (anomaly_init True True 50 (1 / 10))
        [10, 10, 10, 10, 10, 10, 10, 10, 10, 10, 10, 10, 10, 10, 10, 10, 10, 10, 10]
        None None)) = Fallback
   \<and> mode (reset True True
        (snd (detect_batch forest_raising (anomaly_init True True 50 (1 / 10))
          [10, 10, 10, 10, 10, 10, 10, 10, 10, 10, 10, 10, 10, 10, 10, 10, 10, 10, 10]
          None None))) = Fallback"
  using nineteen_calls_raising
  by (simp add: mode_def reset_use_fallback) (simp add: anomaly_init_def)

text \<open>
  C4, amended. After \<open>reset\<close> every window and buffer is empty and the stored
  statistics are mean 0 and deviation 1. A detector in \<open>Fallback\<close> stays in
  \<open>Fallback\<close>; a detector in \<open>Multivariate\<close> stays there when the capability is
  available and the model is rebuilt without an exception, and falls back when the
  rebuilding raises.
\<close>

theorem reset_state:
  "volume_history (reset sklearn_available init_ok self) = []
   \<and> sentiment_accel_history (reset sklearn_available init_ok self) = []
   \<and> growth_rate_history (reset sklearn_available init_ok self) = []
   \<and> feature_buffer (reset sklearn_available init_ok self) = []
   \<and> mean_volume (reset sklearn_available init_ok self) = 0
   \<and> std_volume (reset sklearn_available init_ok self) = 1
   \<and> (mode self = Fallback \<longrightarrow> mode (reset sklearn_available init_ok self) = Fallback)
   \<and> (mode self = Multivariate \<and> sklearn_available \<and> init_ok \<longrightarrow>
        mode (reset sklearn_available init_ok self) = Multivariate)
   \<and> (mode self = Multivariate \<and> sklearn_available \<and> \<not> init_ok \<longrightarrow>
        mode (reset sklearn_available init_ok self) = Fallback)"
  by (simp add: reset_def mode_def Let_def)

theorem reset_state_witness:
  "mode (reset True True ((anomaly_init True True 50 (1 / 10))\<lparr>use_fallback := True\<rparr>)) = Fallback
   \<and> mode (reset True True ((anomaly_init True True 50 (1 / 10))\<lparr>volume_history := [3]\<rparr>))
       = Multivariate
   \<and> volume_history (reset True True ((anomaly_init True True 50 (1 / 10))\<lparr>volume_history := [3]\<rparr>))
       = []
   \<and> mode (reset True False (anomaly_init True True 50 (1 / 10))) = Fallback"
  using reset_state [of True True "(anomaly_init True True 50 (1 / 10))\<lparr>use_fallback := True\<rparr>"]
    reset_state [of True True "(anomaly_init True True 50 (1 / 10))\<lparr>volume_history := [3]\<rparr>"]
    reset_state [of True False "anomaly_init True True 50 (1 / 10)"]
  by (simp add: mode_def anomaly_init_def)

lemma nine_calls:
  "snd (detect_batch (forest_scoring (- (1 / 2))) (anomaly_init True True 50 (1 / 10))
          [10, 10, 10, 10, 10, 10, 10, 10, 10] None None)
   = (anomaly_init True True 50 (1 / 10))\<lparr>
        volume_history := [10, 10, 10, 10, 10, 10, 10, 10, 10],
        sentiment_accel_history := [0, 0, 0, 0, 0, 0, 0, 0, 0],
        growth_rate_history := [0, 0, 0, 0, 0, 0, 0, 0, 0],
        mean_volume := 10, std_volume := 0\<rparr>"
  by (simp add: detect_batch_def detect_advanced_def detect_zscore_def anomaly_init_def
        deque_append_def extract_features_def np_std_def mean_def Let_def)

lemma round2_100: "round2 100 = 100"
  by (simp add: round2_def rint_def)

text \<open>
  C5, as stated, fails: after nine observations the detector is in \<open>Multivariate\<close>
  mode, the tenth call brings the window to ten observations and the model would score
  100, yet the call returns the z-score value 0: the feature buffer holds one vector only.
\<close>

theorem detect_advanced_counterexample:
  "mode (snd (detect_batch (forest_scoring (- (1 / 2))) (anomaly_init True True 50 (1 / 10))
          [10, 10, 10, 10, 10, 10, 10, 10, 10] None None)) = Multivariate
   \<and> length (volume_history (snd (detect_advanced (forest_scoring (- (1 / 2)))
        (snd (detect_batch (forest_scoring (- (1 / 2))) (anomaly_init True True 50 (1 / 10))
          [10, 10, 10, 10, 10, 10, 10, 10, 10] None None)) 10 0 0))) = 10
   \<and> fst (detect_advanced (forest_scoring (- (1 / 2)))
        (snd (detect_batch (forest_scoring (- (1 / 2))) (anomaly_init True True 50 (1 / 10))
          [10, 10, 10, 10, 10, 10, 10, 10, 10] None None)) 10 0 0) = 0
   \<and> round2 (max 0 (min 100 ((1 / 2 - (- (1 / 2))) * 200))) = 100"
  unfolding nine_calls
  by (simp add: round2_100 mode_def)
     (simp add: detect_advanced_def detect_zscore_def anomaly_init_def
        deque_append_def extract_features_def np_std_def mean_def Let_def)

text \<open>
  C5, amended. For a call to \<open>detect_advanced\<close> in \<open>Multivariate\<close> mode in which the
  volume window, after the append, holds at least \<open>min_samples_for_iforest\<close>
  observations, the feature buffer \<open>buf\<close>, after the append of the current vector and
  the cut to the window size, holds at least as many vectors, and the model returns a
  raw score \<open>s\<close> without raising, the result is \<open>(0.5 - s) * 200\<close> clamped to the
  range from 0 to 100 and rounded to two decimal places; the mode stays
  \<open>Multivariate\<close>.
\<close>

theorem detect_advanced_multivariate:
  assumes "mode self = Multivariate"
    and "min_samples_for_iforest self
           \<le> length (deque_append (window_size self) (volume_history self) volume)"
    and "buf = (if window_size self < length (feature_buffer self @ [extract_features volume sa gr])
                then last_n (window_size self) (feature_buffer self @ [extract_features volume sa gr])
                else feature_buffer self @ [extract_features volume sa gr])"
    and "min_samples_for_iforest self \<le> length buf"
    and "forest buf = Some s"
  shows "fst (detect_advanced forest self volume sa gr) =
           round2 (max 0 (min 100 ((1 / 2 - s) * 200)))
         \<and> mode (snd (detect_advanced forest self volume sa gr)) = Multivariate
         \<and> feature_buffer (snd (detect_advanced forest self volume sa gr)) = buf"
  using assms
  by (simp add: detect_advanced_def mode_def Let_def split: if_splits)

lemma eighteen_calls:
  "snd (detect_batch (forest_scoring (- (1 / 2))) (anomaly_init True True 50 (1 / 10))
          [10, 10, 10, 10, 10, 10, 10, 10, 10, 10, 10, 10, 10, 10, 10, 10, 10, 10] None None)
   = (anomaly_init True True 50 (1 / 10))\<lparr>
        volume_history := [10, 10, 10, 10, 10, 10, 10, 10, 10, 10, 10, 10, 10, 10, 10, 10, 10, 10],
        sentiment_accel_history := [0, 0, 0, 0, 0, 0, 0, 0, 0, 0, 0, 0, 0, 0, 0, 0, 0, 0],
        growth_rate_history := [0, 0, 0, 0, 0, 0, 0, 0, 0, 0, 0, 0, 0, 0, 0, 0, 0, 0],
        mean_volume := 10, std_volume := 0,
        feature_buffer := [[10, 0, 0], [10, 0, 0], [10, 0, 0], [10, 0, 0], [10, 0, 0], [10, 0, 0], [10, 0, 0], [10, 0, 0], [10, 0, 0]]\<rparr>"
  by (simp add: detect_batch_def detect_advanced_def detect_zscore_def anomaly_init_def
        deque_append_def extract_features_def np_std_def mean_def Let_def)

theorem detect_advanced_multivariate_witness:
  "fst (detect_advanced (forest_scoring (- (1 / 2)))
        (snd (detect_batch (forest_scoring (- (1 / 2))) (anomaly_init True True 50 (1 / 10))
          [10, 10, 10, 10, 10, 10, 10, 10, 10, 10, 10, 10, 10, 10, 10, 10, 10, 10] None None)) 10 0 0) = 100"
proof -
  let ?s = "snd (detect_batch (forest_scoring (- (1 / 2))) (anomaly_init True True 50 (1 / 10))
          [10, 10, 10, 10, 10, 10, 10, 10, 10, 10, 10, 10, 10, 10, 10, 10, 10, 10] None None)"
  let ?b = "[[10, 0, 0], [10, 0, 0], [10, 0, 0], [10, 0, 0], [10, 0, 0], [10, 0, 0], [10, 0, 0], [10, 0, 0], [10, 0, 0], [10, 0, 0]] :: real list list"
  have m: "mode ?s = Multivariate"
    unfolding eighteen_calls by (simp add: mode_def anomaly_init_def)
  have v: "min_samples_for_iforest ?s \<le> length (deque_append (window_size ?s) (volume_history ?s) 10)"
    unfolding eighteen_calls by (simp add: anomaly_init_def deque_append_def)
  have b: "?b =
      (if window_size ?s < length (feature_buffer ?s @ [extract_features 10 0 0])
       then last_n (window_size ?s) (feature_buffer ?s @ [extract_features 10 0 0])
       else feature_buffer ?s @ [extract_features 10 0 0])"
    unfolding eighteen_calls by (simp add: anomaly_init_def extract_features_def)
  have l: "min_samples_for_iforest ?s \<le> length ?b"
    unfolding eighteen_calls by (simp add: anomaly_init_def)
  have f: "forest_scoring (- (1 / 2)) ?b = Some (- (1 / 2))"
    by (simp add: forest_scoring_def)
  show ?thesis
    using detect_advanced_multivariate
      [where self = ?s and volume = 10 and sa = 0 and gr = 0 and buf = ?b
         and forest = "forest_scoring (- (1 / 2))" and s = "- (1 / 2)", OF m v b l f]
    by (simp add: round2_100)
qed

section \<open>Properties of the analyze router\<close>

lemma std_pair: "np_std [9 / 10, - (9 / 10)] = 9 / 10"
proof -
  have "mean (map (\<lambda>x. (x - mean [9 / 10, - (9 / 10)])\<^sup>2) [9 / 10, - (9 / 10)]) = (9 / 10)\<^sup>2"
    by (simp add: mean_def power2_eq_square)
  then show ?thesis by (simp add: np_std_def)
qed

lemma cluster_id_of_0: "cluster_id_of 0 = ''cluster-0''"
  by code_simp

lemma extract_keywords_short: "extract_keywords [''a'', ''b''] = []"
  by code_simp

lemma two_posts_summary:
  "get_cluster_info [0] clustering_init [0, 0] [''a'', ''b''] [9 / 10, - (9 / 10)] =
     (Inr [\<lparr>clusterId = ''cluster-0'', keywords_f = [], size_f = 2, avgSentiment = 0,
            growthRate = 200, volatilityIndex = 9 / 10\<rparr>],
      \<lparr>previous_sizes = [''cluster-0'' \<mapsto> 2]\<rparr>)"
  by (simp add: get_cluster_info_def summarize_label_def indices_of_def gather_def
        clustering_init_def cluster_id_of_0 std_pair extract_keywords_short Let_def upt_rec)
     (simp add: mean_def)

lemma two_posts_metrics:
  "compute_metrics escalation_init [9 / 10, - (9 / 10)]
     [\<lparr>clusterId = ''cluster-0'', keywords_f = [], size_f = 2, avgSentiment = 0,
       growthRate = 200, volatilityIndex = 9 / 10\<rparr>] 2 =
     (\<lparr>sentimentAcceleration = 0, clusterGrowthRate = 200, narrativeSpreadSpeed = 45\<rparr>,
      \<lparr>sentiment_history = [9 / 10, - (9 / 10)], esc_volume_history = []\<rparr>)"
  by (simp add: compute_metrics_def compute_sentiment_acceleration_def
        compute_cluster_growth_rate_def compute_narrative_spread_speed_def escalation_init_def
        deque_extend_def deque_append_def last_n_def mean_def Let_def)

lemma two_posts_response:
  "fst (analyze_posts (fixed_providers [(''POSITIVE'', 9 / 10), (''NEGATIVE'', 9 / 10)])
          (services_init True True)
          [\<lparr>id_f = ''p1'', text_f = ''a''\<rparr>, \<lparr>id_f = ''p2'', text_f = ''b''\<rparr>]) =
     Inr \<lparr>enrichedPosts =
            [\<lparr>ep_id = ''p1'', ep_text = ''a'', sentimentScore = 9 / 10, embedding = [0]\<rparr>,
             \<lparr>ep_id = ''p2'', ep_text = ''b'', sentimentScore = - (9 / 10), embedding = [0]\<rparr>],
          clusters =
            [\<lparr>clusterId = ''cluster-0'', keywords_f = [], size_f = 2, avgSentiment = 0,
              growthRate = 200, volatilityIndex = 9 / 10\<rparr>],
          metrics = \<lparr>sentimentAcceleration = 0, clusterGrowthRate = 200,
                     narrativeSpreadSpeed = 45, anomalyScore = 0\<rparr>\<rparr>"
  by (simp add: analyze_posts_def fixed_providers_def services_init_def encode_def analyze_def
        cluster_def two_posts_summary two_posts_metrics detect_def detect_zscore_def
        anomaly_init_def enrich_def upt_rec)

text \<open>
  C1, evaluated on the code. A batch of two posts with sentiments 0.9 and -0.9, served
  from fresh state, is answered with one cluster summary, \<open>cluster-0\<close> of size 2 and
  growth rate 200, and with the metrics sentiment acceleration 0, cluster growth rate 200
  and narrative spread speed 45: \<open>cluster\<close> labels both posts 0 and
  \<open>get_cluster_info\<close> summarises label 0.
\<close>

theorem analyze_two_posts:
  "length [\<lparr>id_f = ''p1'', text_f = ''a''\<rparr>, \<lparr>id_f = ''p2'', text_f = ''b''\<rparr>] < 3
   \<and> fst (analyze_posts (fixed_providers [(''POSITIVE'', 9 / 10), (''NEGATIVE'', 9 / 10)])
          (services_init True True)
          [\<lparr>id_f = ''p1'', text_f = ''a''\<rparr>, \<lparr>id_f = ''p2'', text_f = ''b''\<rparr>]) =
     Inr \<lparr>enrichedPosts =
            [\<lparr>ep_id = ''p1'', ep_text = ''a'', sentimentScore = 9 / 10, embedding = [0]\<rparr>,
             \<lparr>ep_id = ''p2'', ep_text = ''b'', sentimentScore = - (9 / 10), embedding = [0]\<rparr>],
          clusters =
            [\<lparr>clusterId = ''cluster-0'', keywords_f = [], size_f = 2, avgSentiment = 0,
              growthRate = 200, volatilityIndex = 9 / 10\<rparr>],
          metrics = \<lparr>sentimentAcceleration = 0, clusterGrowthRate = 200,
                     narrativeSpreadSpeed = 45, anomalyScore = 0\<rparr>\<rparr>"
  using two_posts_response by simp

lemma detect_keeps_history:
  "volume_history (snd (detect self current_volume)) = volume_history self"
  by (simp add: detect_def detect_zscore_def Let_def)

lemma detect_fresh:
  "volume_history self = [] \<Longrightarrow> fst (detect self current_volume) = 0"
  by (simp add: detect_def detect_zscore_def)

lemma analyze_posts_anomaly:
  assumes "analyze_posts env st posts = (r, st')"
  shows "volume_history (anomaly_service st') = volume_history (anomaly_service st)"
    and "volume_history (anomaly_service st) = [] \<Longrightarrow> r = Inr resp \<Longrightarrow>
           anomalyScore (metrics resp) = 0"
proof -
  show "volume_history (anomaly_service st') = volume_history (anomaly_service st)"
    using assms detect_keeps_history [of "anomaly_service st" "int (length posts)"]
    by (auto simp: analyze_posts_def Let_def split: if_splits prod.splits sum.splits)
  show "anomalyScore (metrics resp) = 0"
    if "volume_history (anomaly_service st) = []" and "r = Inr resp"
    using assms that detect_fresh [of "anomaly_service st" "int (length posts)"]
    by (auto simp: analyze_posts_def Let_def split: if_splits prod.splits sum.splits)
qed

lemma serve_anomaly_zero:
  "volume_history (anomaly_service st) = [] \<Longrightarrow> Inr resp \<in> set (serve env st batches) \<Longrightarrow>
   anomalyScore (metrics resp) = 0"
proof (induction batches arbitrary: st)
  case Nil
  then show ?case by simp
next
  case (Cons posts rest)
  obtain r st' where step: "analyze_posts env st posts = (r, st')"
    by (cases "analyze_posts env st posts")
  from Cons.prems(2) step have "r = Inr resp \<or> Inr resp \<in> set (serve env st' rest)"
    by auto
  then show ?case
  proof
    assume "r = Inr resp"
    with analyze_posts_anomaly(2) [OF step Cons.prems(1)] show ?thesis .
  next
    assume "Inr resp \<in> set (serve env st' rest)"
    moreover have "volume_history (anomaly_service st') = []"
      using analyze_posts_anomaly(1) [OF step] Cons.prems(1) by simp
    ultimately show ?thesis by (rule Cons.IH [rotated])
  qed
qed

text \<open>
  C2. \<open>detect\<close>, the entry point the endpoint calls, leaves the volume history as it
  was; so from fresh services every response among the outcomes of a sequence of batches
  carries the anomaly score 0.
\<close>

theorem endpoint_anomaly_score_zero:
  "volume_history (snd (detect self current_volume)) = volume_history self
   \<and> (Inr resp \<in> set (serve env (services_init sklearn_available init_ok) batches) \<longrightarrow>
        anomalyScore (metrics resp) = 0)"
  using serve_anomaly_zero [of "services_init sklearn_available init_ok" resp env batches]
  by (simp add: detect_keeps_history services_init_def anomaly_init_def)

lemma serve_single: "serve env st [posts] = [fst (analyze_posts env st posts)]"
  by (simp add: case_prod_beta)

theorem endpoint_anomaly_score_zero_witness:
  "serve (fixed_providers [(''POSITIVE'', 9 / 10), (''NEGATIVE'', 9 / 10)])
          (services_init True True)
          [[\<lparr>id_f = ''p1'', text_f = ''a''\<rparr>, \<lparr>id_f = ''p2'', text_f = ''b''\<rparr>]] =
     [Inr \<lparr>enrichedPosts =
            [\<lparr>ep_id = ''p1'', ep_text = ''a'', sentimentScore = 9 / 10, embedding = [0]\<rparr>,
             \<lparr>ep_id = ''p2'', ep_text = ''b'', sentimentScore = - (9 / 10), embedding = [0]\<rparr>],
          clusters =
            [\<lparr>clusterId = ''cluster-0'', keywords_f = [], size_f = 2, avgSentiment = 0,
              growthRate = 200, volatilityIndex = 9 / 10\<rparr>],
          metrics = \<lparr>sentimentAcceleration = 0, clusterGrowthRate = 200,
                     narrativeSpreadSpeed = 45, anomalyScore = 0\<rparr>\<rparr>]
   \<and> anomalyScore (metrics \<lparr>enrichedPosts =
            [\<lparr>ep_id = ''p1'', ep_text = ''a'', sentimentScore = 9 / 10, embedding = [0]\<rparr>,
             \<lparr>ep_id = ''p2'', ep_text = ''b'', sentimentScore = - (9 / 10), embedding = [0]\<rparr>],
          clusters =
            [\<lparr>clusterId = ''cluster-0'', keywords_f = [], size_f = 2, avgSentiment = 0,
              growthRate = 200, volatilityIndex = 9 / 10\<rparr>],
          metrics = \<lparr>sentimentAcceleration = 0, clusterGrowthRate = 200,
                     narrativeSpreadSpeed = 45, anomalyScore = 0\<rparr>\<rparr>) = 0"
proof -
  have out: "serve (fixed_providers [(''POSITIVE'', 9 / 10), (''NEGATIVE'', 9 / 10)])
          (services_init True True)
          [[\<lparr>id_f = ''p1'', text_f = ''a''\<rparr>, \<lparr>id_f = ''p2'', text_f = ''b''\<rparr>]] =
     [Inr \<lparr>enrichedPosts =
            [\<lparr>ep_id = ''p1'', ep_text = ''a'', sentimentScore = 9 / 10, embedding = [0]\<rparr>,
             \<lparr>ep_id = ''p2'', ep_text = ''b'', sentimentScore = - (9 / 10), embedding = [0]\<rparr>],
          clusters =
            [\<lparr>clusterId = ''cluster-0'', keywords_f = [], size_f = 2, avgSentiment = 0,
              growthRate = 200, volatilityIndex = 9 / 10\<rparr>],
          metrics = \<lparr>sentimentAcceleration = 0, clusterGrowthRate = 200,
                     narrativeSpreadSpeed = 45, anomalyScore = 0\<rparr>\<rparr>]"
    by (simp only: serve_single two_posts_response)
  then show ?thesis
    using endpoint_anomaly_score_zero
      [where env = "fixed_providers [(''POSITIVE'', 9 / 10), (''NEGATIVE'', 9 / 10)]"
         and sklearn_available = True and init_ok = True
         and batches = "[[\<lparr>id_f = ''p1'', text_f = ''a''\<rparr>, \<lparr>id_f = ''p2'', text_f = ''b''\<rparr>]]"
         and resp = "\<lparr>enrichedPosts =
            [\<lparr>ep_id = ''p1'', ep_text = ''a'', sentimentScore = 9 / 10, embedding = [0]\<rparr>,
             \<lparr>ep_id = ''p2'', ep_text = ''b'', sentimentScore = - (9 / 10), embedding = [0]\<rparr>],
          clusters =
            [\<lparr>clusterId = ''cluster-0'', keywords_f = [], size_f = 2, avgSentiment = 0,
              growthRate = 200, volatilityIndex = 9 / 10\<rparr>],
          metrics = \<lparr>sentimentAcceleration = 0, clusterGrowthRate = 200,
                     narrativeSpreadSpeed = 45, anomalyScore = 0\<rparr>\<rparr>"]
    by simp
qed

section \<open>Properties of the clustering service\<close>

lemma digit_char_inj: "a < 10 \<Longrightarrow> b < 10 \<Longrightarrow> digit_char a = digit_char b \<Longrightarrow> a = b"
proof -
  assume a: "a < 10" and b: "b < 10" and eq: "digit_char a = digit_char b"
  from eq have "(of_char (char_of (48 + a)) :: nat) = of_char (char_of (48 + b))"
    by (simp add: digit_char_def)
  with a b show "a = b" by (simp add: of_char_of)
qed

lemma digit_char_not_minus: "d < 10 \<Longrightarrow> digit_char d \<noteq> CHR ''-''"
proof
  assume d: "d < 10" and eq: "digit_char d = CHR ''-''"
  from eq have "(of_char (char_of (48 + d)) :: nat) = of_char (CHR ''-'')"
    by (simp add: digit_char_def)
  with d show False by (simp add: of_char_of)
qed

lemma show_nat_nonempty: "show_nat n \<noteq> []"
  by (subst show_nat.simps) simp

lemma show_nat_last: "last (show_nat n) = digit_char (n mod 10)"
  by (subst show_nat.simps) simp

lemma show_nat_butlast:
  "butlast (show_nat n) = (if n < 10 then [] else show_nat (n div 10))"
  by (subst show_nat.simps) simp

lemma show_nat_hd: "\<exists>d < 10. hd (show_nat n) = digit_char d"
proof (induction n rule: show_nat.induct)
  case (1 n)
  show ?case
  proof (cases "n < 10")
    case True
    then show ?thesis by (subst show_nat.simps) auto
  next
    case False
    with 1 obtain d where "d < 10" "hd (show_nat (n div 10)) = digit_char d" by auto
    with False show ?thesis
      by (subst show_nat.simps) (auto simp: show_nat_nonempty)
  qed
qed

lemma show_nat_inj: "show_nat n = show_nat m \<Longrightarrow> n = m"
proof (induction n arbitrary: m rule: show_nat.induct)
  case (1 n)
  from 1(2) have l: "digit_char (n mod 10) = digit_char (m mod 10)"
    by (metis show_nat_last)
  then have md: "n mod 10 = m mod 10"
    by (intro digit_char_inj) simp_all
  from 1(2) have bl: "(if n < 10 then [] else show_nat (n div 10))
      = (if m < 10 then [] else show_nat (m div 10))"
    by (metis show_nat_butlast)
  show ?case
  proof (cases "n < 10")
    case True
    with bl have "m < 10"
      using show_nat_nonempty [of "m div 10"] by (auto split: if_splits)
    with True md show ?thesis by simp
  next
    case False
    with bl have m: "\<not> m < 10" and "show_nat (n div 10) = show_nat (m div 10)"
      using show_nat_nonempty [of "n div 10"] by (auto split: if_splits)
    with 1(1) False have "n div 10 = m div 10" by blast
    with md show ?thesis by (metis div_mult_mod_eq)
  qed
qed

lemma show_int_inj: "show_int i = show_int j \<Longrightarrow> i = j"
proof -
  assume eq: "show_int i = show_int j"
  have ne: "CHR ''-'' # show_nat a \<noteq> show_nat b" for a b
  proof
    assume "CHR ''-'' # show_nat a = show_nat b"
    then have h: "hd (show_nat b) = CHR ''-''" by (metis list.sel(1))
    obtain d where "d < 10" "hd (show_nat b) = digit_char d"
      using show_nat_hd [of b] by blast
    with h digit_char_not_minus [of d] show False by simp
  qed
  show "i = j"
  proof (cases "i < 0")
    case True
    show ?thesis
    proof (cases "j < 0")
      case jn: True
      with True eq have "nat (- i) = nat (- j)"
        by (auto simp: show_int_def dest: show_nat_inj)
      with True jn show ?thesis by simp
    next
      case False
      with True eq ne show ?thesis by (auto simp: show_int_def)
    qed
  next
    case False
    show ?thesis
    proof (cases "j < 0")
      case True
      with False eq ne [of "nat (- j)" "nat i"] show ?thesis by (auto simp: show_int_def)
    next
      case jp: False
      with False eq have "nat i = nat j"
        by (auto simp: show_int_def dest: show_nat_inj)
      with False jp show ?thesis by simp
    qed
  qed
qed

lemma cluster_id_of_inj: "cluster_id_of a = cluster_id_of b \<longleftrightarrow> a = b"
  by (auto simp: cluster_id_of_def dest: show_int_inj)

lemma length_indices_of:
  "length (indices_of labels label) = length (filter (\<lambda>x. x = label) labels)"
proof -
  have "filter (\<lambda>x. x = label) (map ((!) labels) [0 ..< length labels])
          = map ((!) labels) (filter (\<lambda>i. labels ! i = label) [0 ..< length labels])"
    by (simp add: filter_map comp_def)
  then have "length (filter (\<lambda>x. x = label) (map ((!) labels) [0 ..< length labels]))
          = length (indices_of labels label)"
    by (simp add: indices_of_def)
  then show ?thesis by (simp add: map_nth)
qed

lemma gather_ok:
  "length labels \<le> length xs \<Longrightarrow> \<exists>ys. gather xs (indices_of labels label) = Inr ys"
  by (auto simp: gather_def indices_of_def list_all_iff)

lemma summarize_label_ok:
  assumes "length labels \<le> length texts" and "length labels \<le> length sentiments"
  shows "\<exists>c self'. summarize_label self labels texts sentiments label = Inr (c, self')"
proof -
  obtain ts where "gather texts (indices_of labels label) = Inr ts"
    using gather_ok [OF assms(1)] by blast
  moreover obtain ss where "gather sentiments (indices_of labels label) = Inr ss"
    using gather_ok [OF assms(2)] by blast
  ultimately show ?thesis by (simp add: summarize_label_def Let_def)
qed

lemma summarize_label_result:
  assumes "summarize_label self labels texts sentiments label = Inr (c, self')"
  shows "clusterId c = cluster_id_of label"
    and "size_f c = int (length (filter (\<lambda>x. x = label) labels))"
    and "growthRate c =
           real_of_int (int (length (filter (\<lambda>x. x = label) labels))
                        - (case previous_sizes self (cluster_id_of label) of
                             None \<Rightarrow> 0 | Some p \<Rightarrow> p))
           / real_of_int (max (case previous_sizes self (cluster_id_of label) of
                                 None \<Rightarrow> 0 | Some p \<Rightarrow> p) 1) * 100"
    and "previous_sizes self' =
           (previous_sizes self)(cluster_id_of label
              \<mapsto> int (length (filter (\<lambda>x. x = label) labels)))"
  using assms
  by (auto simp: summarize_label_def Let_def length_indices_of split: sum.splits)

lemma cluster_loop_ok:
  assumes "length labels \<le> length texts" and "length labels \<le> length sentiments"
  shows "\<exists>out self'. cluster_loop self labels texts sentiments us acc = (Inr out, self')"
proof (induction us arbitrary: self acc)
  case Nil
  show ?case by simp
next
  case (Cons u us)
  show ?case
  proof (cases "u = - 1")
    case True
    with Cons show ?thesis by simp
  next
    case False
    obtain c self1 where "summarize_label self labels texts sentiments u = Inr (c, self1)"
      using summarize_label_ok [OF assms] by blast
    with False Cons [of self1 "acc @ [c]"] show ?thesis by simp
  qed
qed

lemma cluster_loop_other:
  assumes "cluster_loop self labels texts sentiments us acc = (Inr out, self')"
    and "label \<notin> set us"
  shows "previous_sizes self' (cluster_id_of label) = previous_sizes self (cluster_id_of label)
         \<and> (\<exists>new. out = acc @ new \<and> (\<forall>c \<in> set new. clusterId c \<noteq> cluster_id_of label))"
  using assms
proof (induction us arbitrary: self acc)
  case Nil
  then show ?case by simp
next
  case (Cons u us)
  show ?case
  proof (cases "u = - 1")
    case True
    with Cons show ?thesis by simp
  next
    case False
    from Cons.prems(1) False obtain c self1
      where s: "summarize_label self labels texts sentiments u = Inr (c, self1)"
        and l: "cluster_loop self1 labels texts sentiments us (acc @ [c]) = (Inr out, self')"
      by (auto split: sum.splits)
    from Cons.prems(2) have ne: "u \<noteq> label" and "label \<notin> set us" by auto
    from Cons.IH [OF l this(2)] obtain new
      where p: "previous_sizes self' (cluster_id_of label) = previous_sizes self1 (cluster_id_of label)"
        and o: "out = (acc @ [c]) @ new" and n: "\<forall>c \<in> set new. clusterId c \<noteq> cluster_id_of label"
      by blast
    from ne have "previous_sizes self1 (cluster_id_of label) = previous_sizes self (cluster_id_of label)"
      by (simp add: summarize_label_result(4) [OF s] cluster_id_of_inj)
    moreover from ne have "clusterId c \<noteq> cluster_id_of label"
      by (simp add: summarize_label_result(1) [OF s] cluster_id_of_inj)
    ultimately show ?thesis
      using p o n by (intro conjI exI [of _ "c # new"]) auto
  qed
qed

lemma cluster_loop_label:
  assumes "cluster_loop self labels texts sentiments us acc = (Inr out, self')"
    and "distinct us" and "label \<in> set us" and "label \<noteq> - 1"
    and "S = int (length (filter (\<lambda>x. x = label) labels))"
    and "P = (case previous_sizes self (cluster_id_of label) of None \<Rightarrow> 0 | Some p \<Rightarrow> p)"
  shows "previous_sizes self' (cluster_id_of label) = Some S
         \<and> (\<exists>new. out = acc @ new
               \<and> (\<exists>c \<in> set new. clusterId c = cluster_id_of label)
               \<and> (\<forall>c \<in> set new. clusterId c = cluster_id_of label \<longrightarrow>
                     size_f c = S
                     \<and> growthRate c = real_of_int (S - P) / real_of_int (max P 1) * 100))"
  using assms(1-4,6)
proof (induction us arbitrary: self acc)
  case Nil
  then show ?case by simp
next
  case (Cons u us)
  show ?case
  proof (cases "u = - 1")
    case True
    with Cons.prems have "cluster_loop self labels texts sentiments us acc = (Inr out, self')"
      and "distinct us" and "label \<in> set us"
      by auto
    from Cons.IH [OF this Cons.prems(4,5)] show ?thesis .
  next
    case False
    from Cons.prems(1) False obtain c self1
      where s: "summarize_label self labels texts sentiments u = Inr (c, self1)"
        and l: "cluster_loop self1 labels texts sentiments us (acc @ [c]) = (Inr out, self')"
      by (auto split: sum.splits)
    note r = summarize_label_result [OF s]
    show ?thesis
    proof (cases "u = label")
      case True
      with Cons.prems(2) have "label \<notin> set us" by simp
      from cluster_loop_other [OF l this] obtain new
        where p: "previous_sizes self' (cluster_id_of label) = previous_sizes self1 (cluster_id_of label)"
          and o: "out = (acc @ [c]) @ new"
          and n: "\<forall>c \<in> set new. clusterId c \<noteq> cluster_id_of label"
        by blast
      from True r(4) p assms(5) have "previous_sizes self' (cluster_id_of label) = Some S"
        by simp
      moreover from True r(1-3) assms(5) Cons.prems(5)
      have "clusterId c = cluster_id_of label" "size_f c = S"
        "growthRate c = real_of_int (S - P) / real_of_int (max P 1) * 100"
        by simp_all
      ultimately show ?thesis
        using o n by (intro conjI exI [of _ "c # new"]) auto
    next
      case ne: False
      with Cons.prems have d: "distinct us" and m: "label \<in> set us" by auto
      from ne have same: "previous_sizes self1 (cluster_id_of label) = previous_sizes self (cluster_id_of label)"
        by (simp add: r(4) cluster_id_of_inj)
      with Cons.prems(5)
      have P1: "P = (case previous_sizes self1 (cluster_id_of label) of None \<Rightarrow> 0 | Some p \<Rightarrow> p)"
        by simp
      from Cons.IH [OF l d m Cons.prems(4) P1] obtain new
        where p: "previous_sizes self' (cluster_id_of label) = Some S"
          and o: "out = (acc @ [c]) @ new"
          and e: "\<exists>c \<in> set new. clusterId c = cluster_id_of label"
          and a: "\<forall>c \<in> set new. clusterId c = cluster_id_of label \<longrightarrow>
                     size_f c = S
                     \<and> growthRate c = real_of_int (S - P) / real_of_int (max P 1) * 100"
        by blast
      from ne have "clusterId c \<noteq> cluster_id_of label"
        by (simp add: r(1) cluster_id_of_inj)
      then show ?thesis
        using p o e a by (intro conjI exI [of _ "c # new"]) auto
    qed
  qed
qed

text \<open>
  C7. Let the loop of \<open>get_cluster_info\<close> visit distinct labels, among them a label
  other than -1 with \<open>S\<close> members, and let \<open>P\<close> be the size the memory holds for
  its cluster id before the call (0 when the id was never seen). With texts and
  sentiments for every label position the call succeeds; afterwards the memory holds
  \<open>S\<close> for that id, whatever it held before; a summary with that id is reported, and
  every such summary has size \<open>S\<close> and growth rate \<open>(S - P) / max(P, 1) * 100\<close>, which
  is \<open>S * 100\<close> on a first appearance.
\<close>

theorem growth_rate_memory:
  assumes "distinct unique_labels" and "label \<in> set unique_labels" and "label \<noteq> - 1"
    and "length labels \<le> length texts" and "length labels \<le> length sentiments"
    and "S = int (length (filter (\<lambda>x. x = label) labels))"
    and "P = (case previous_sizes self (cluster_id_of label) of None \<Rightarrow> 0 | Some p \<Rightarrow> p)"
  shows "\<exists>out self'.
           get_cluster_info unique_labels self labels texts sentiments = (Inr out, self')
         \<and> previous_sizes self' (cluster_id_of label) = Some S
         \<and> (\<exists>c \<in> set out. clusterId c = cluster_id_of label)
         \<and> (\<forall>c \<in> set out. clusterId c = cluster_id_of label \<longrightarrow>
               size_f c = S
               \<and> growthRate c = real_of_int (S - P) / real_of_int (max P 1) * 100
               \<and> (previous_sizes self (cluster_id_of label) = None \<longrightarrow>
                    growthRate c = real_of_int S * 100))"
proof -
  obtain out self'
    where run: "cluster_loop self labels texts sentiments unique_labels [] = (Inr out, self')"
    using cluster_loop_ok [OF assms(4,5)] by blast
  from cluster_loop_label [OF run assms(1-3,6,7)]
  have p: "previous_sizes self' (cluster_id_of label) = Some S"
    and e: "\<exists>c \<in> set out. clusterId c = cluster_id_of label"
    and a: "\<forall>c \<in> set out. clusterId c = cluster_id_of label \<longrightarrow>
              size_f c = S
              \<and> growthRate c = real_of_int (S - P) / real_of_int (max P 1) * 100"
    by auto
  have "growthRate c = real_of_int S * 100"
    if "c \<in> set out" "clusterId c = cluster_id_of label"
       "previous_sizes self (cluster_id_of label) = None" for c
    using a that assms(7) by simp
  with run p e a show ?thesis
    by (auto simp: get_cluster_info_def)
qed

lemma cluster_id_of_1: "cluster_id_of 1 = ''cluster-1''"
  by code_simp

theorem growth_rate_memory_witness:
  "previous_sizes
     (snd (get_cluster_info [0, 1] \<lparr>previous_sizes = [''cluster-1'' \<mapsto> 2]\<rparr>
             [0, 1, 1, 1] [''a'', ''b'', ''c'', ''d''] [0, 0, 0, 0]))
     ''cluster-1'' = Some 3
   \<and> 50 \<in> growthRate ` set (projr (fst
         (get_cluster_info [0, 1] \<lparr>previous_sizes = [''cluster-1'' \<mapsto> 2]\<rparr>
            [0, 1, 1, 1] [''a'', ''b'', ''c'', ''d''] [0, 0, 0, 0])))"
proof -
  let ?self = "\<lparr>previous_sizes = [''cluster-1'' \<mapsto> (2::int)]\<rparr>"
  have S: "(3::int) = int (length (filter (\<lambda>x. x = 1) [0, 1, 1, 1::int]))" by simp
  have P: "(2::int) = (case previous_sizes ?self (cluster_id_of 1) of None \<Rightarrow> 0 | Some p \<Rightarrow> p)"
    by (simp add: cluster_id_of_1)
  obtain out self' where
    run: "get_cluster_info [0, 1] ?self [0, 1, 1, 1] [''a'', ''b'', ''c'', ''d''] [0, 0, 0, 0]
            = (Inr out, self')"
    and mem: "previous_sizes self' (cluster_id_of 1) = Some 3"
    and ex: "\<exists>c \<in> set out. clusterId c = cluster_id_of 1"
    and al: "\<forall>c \<in> set out. clusterId c = cluster_id_of 1 \<longrightarrow>
               size_f c = 3
               \<and> growthRate c = real_of_int (3 - 2) / real_of_int (max 2 1) * 100
               \<and> (previous_sizes ?self (cluster_id_of 1) = None \<longrightarrow>
                    growthRate c = real_of_int 3 * 100)"
    using growth_rate_memory
      [where unique_labels = "[0, 1]" and label = 1 and labels = "[0, 1, 1, 1]"
         and texts = "[''a'', ''b'', ''c'', ''d'']" and sentiments = "[0, 0, 0, 0]"
         and self = ?self and S = 3 and P = 2, OF _ _ _ _ _ S P]
    by auto
  from ex al obtain c where "c \<in> set out" "growthRate c = 50" by auto
  then have "50 \<in> growthRate ` set out" by force
  with run mem show ?thesis by (simp add: cluster_id_of_1)
qed

lemma foldl_cond:
  "foldl (\<lambda>a x. if P x then f a x else a) a xs = foldl f a (filter P xs)"
  by (induction xs arbitrary: a) simp_all

lemma count_words_bump:
  "count_words freq t =
     foldl bump freq (filter (\<lambda>word. word \<notin> set stop_words) (findall_words (lower t)))"
  unfolding count_words_def by (rule foldl_cond)

lemma word_freq_tokens:
  "foldl count_words freq texts = foldl bump freq (counted_tokens texts)"
  by (induction texts arbitrary: freq) (simp_all add: counted_tokens_def count_words_bump)

lemma bump_map:
  "distinct ks \<Longrightarrow>
   bump (map (\<lambda>k. (k, f k)) ks) w =
     (if w \<in> set ks then map (\<lambda>k. (k, if k = w then f k + 1 else f k)) ks
      else map (\<lambda>k. (k, f k)) ks @ [(w, 1)])"
  by (induction ks) auto

lemma foldl_bump:
  "foldl bump [] ws = map (\<lambda>k. (k, count_list ws k)) (rev (remdups (rev ws)))"
proof (induction ws rule: rev_induct)
  case Nil
  show ?case by simp
next
  case (snoc x xs)
  have d: "distinct (rev (remdups (rev xs)))" by simp
  show ?case
    by (auto simp add: snoc bump_map [OF d])
qed

lemma first_pos_snoc:
  "a \<in> set xs \<Longrightarrow> first_pos (xs @ [x]) a = first_pos xs a"
  "a \<in> set xs \<Longrightarrow> first_pos xs a < length xs"
  "x \<notin> set xs \<Longrightarrow> first_pos (xs @ [x]) x = length xs"
proof -
  show "first_pos (xs @ [x]) a = first_pos xs a" if "a \<in> set xs"
    using that by (simp add: first_pos_def)
  show "first_pos xs a < length xs" if "a \<in> set xs"
    using that unfolding first_pos_def
    by (induction xs) auto
  show "first_pos (xs @ [x]) x = length xs" if "x \<notin> set xs"
  proof -
    from that have "takeWhile (\<lambda>y. y \<noteq> x) (xs @ [x]) = xs @ takeWhile (\<lambda>y. y \<noteq> x) [x]"
      by (intro takeWhile_append2) auto
    then show ?thesis by (simp add: first_pos_def)
  qed
qed

lemma first_seen_order:
  "sorted_wrt (\<lambda>a b. first_pos ws a < first_pos ws b) (rev (remdups (rev ws)))"
proof (induction ws rule: rev_induct)
  case Nil
  show ?case by simp
next
  case (snoc x xs)
  have old: "sorted_wrt (\<lambda>a b. first_pos (xs @ [x]) a < first_pos (xs @ [x]) b)
               (rev (remdups (rev xs)))"
    by (rule sorted_wrt_mono_rel [OF _ snoc]) (simp add: first_pos_snoc(1))
  show ?case
  proof (cases "x \<in> set xs")
    case True
    with old show ?thesis by simp
  next
    case False
    with old show ?thesis
      by (simp add: sorted_wrt_append first_pos_snoc)
  qed
qed

lemma sorted_wrt_insort_key:
  assumes "sorted_wrt (\<lambda>a b. f a < f b \<or> (f a = f b \<and> P a b)) ys"
    and "sorted (map f ys)" and "\<forall>y \<in> set ys. P x y"
  shows "sorted_wrt (\<lambda>a b. f a < f b \<or> (f a = f b \<and> P a b)) (insort_key f x ys)"
  using assms
proof (induction ys)
  case Nil
  then show ?case by simp
next
  case (Cons y ys)
  show ?case
  proof (cases "f x \<le> f y")
    case True
    with Cons.prems have "\<forall>z \<in> set (y # ys). f x \<le> f z \<and> P x z" by auto
    then have "\<forall>z \<in> set (y # ys). f x < f z \<or> (f x = f z \<and> P x z)" by force
    with True Cons.prems(1) show ?thesis by simp
  next
    case False
    with Cons show ?thesis by (auto simp: set_insort_key)
  qed
qed

lemma sorted_wrt_sort_key:
  "sorted_wrt P xs \<Longrightarrow>
   sorted_wrt (\<lambda>a b. f a < f b \<or> (f a = f b \<and> P a b)) (sort_key f xs)"
proof (induction xs)
  case Nil
  show ?case by simp
next
  case (Cons x xs)
  then have "sorted_wrt (\<lambda>a b. f a < f b \<or> (f a = f b \<and> P a b)) (sort_key f xs)"
    and "\<forall>y \<in> set (sort_key f xs). P x y"
    by simp_all
  then show ?case
    by (simp add: sorted_wrt_insort_key)
qed

lemma ranked_items:
  "sorted_wrt (\<lambda>a b. ranks_before (counted_tokens texts) (fst a) (fst b))
     (sorted_desc (foldl count_words [] texts))"
proof -
  let ?ws = "counted_tokens texts"
  let ?items = "map (\<lambda>k. (k, count_list ?ws k)) (rev (remdups (rev ?ws)))"
  let ?P = "\<lambda>a b :: string \<times> nat. first_pos ?ws (fst a) < first_pos ?ws (fst b)"
  let ?f = "\<lambda>x :: string \<times> nat. - int (snd x)"
  have items: "foldl count_words [] texts = ?items"
    by (simp add: word_freq_tokens foldl_bump)
  have "sorted_wrt ?P ?items"
    using first_seen_order [of ?ws] by (simp add: sorted_wrt_map)
  then have s: "sorted_wrt (\<lambda>a b. ?f a < ?f b \<or> (?f a = ?f b \<and> ?P a b)) (sort_key ?f ?items)"
    by (rule sorted_wrt_sort_key)
  have "sorted_wrt (\<lambda>a b. ranks_before ?ws (fst a) (fst b)) (sort_key ?f ?items)"
    by (rule sorted_wrt_mono_rel [OF _ s]) (auto simp: ranks_before_def)
  then show ?thesis by (simp add: items sorted_desc_def)
qed

lemma items_keys:
  "fst ` set (sorted_desc (foldl count_words [] texts)) = set (counted_tokens texts)"
  by (simp add: sorted_desc_def word_freq_tokens foldl_bump image_image)

lemma counted_token_shape:
  assumes "w \<in> set (counted_tokens texts)"
  shows "w \<notin> set stop_words \<and> 4 \<le> length w \<and> list_all is_letter w"
  using assms by (auto simp: counted_tokens_def findall_words_def)

text \<open>
  C10. For every list of texts the extracted keywords are at most five; none is a stop
  word, each has at least four characters, all of them letters, and each is a counted
  word of the texts. The list is ordered by descending frequency over all texts taken
  together, words of equal frequency in the order in which the scan first met them; and
  a counted word left out ranks after each of the five that were kept.
\<close>

theorem extract_keywords_ranked:
  "length (extract_keywords texts) \<le> 5
   \<and> (\<forall>w \<in> set (extract_keywords texts).
         w \<notin> set stop_words \<and> 4 \<le> length w \<and> list_all is_letter w
         \<and> w \<in> set (counted_tokens texts))
   \<and> sorted_wrt (ranks_before (counted_tokens texts)) (extract_keywords texts)
   \<and> (\<forall>w \<in> set (counted_tokens texts). w \<notin> set (extract_keywords texts) \<longrightarrow>
         length (extract_keywords texts) = 5
         \<and> (\<forall>k \<in> set (extract_keywords texts). ranks_before (counted_tokens texts) k w))"
proof -
  let ?ws = "counted_tokens texts"
  let ?s = "sorted_desc (foldl count_words [] texts)"
  let ?R = "\<lambda>a b :: string \<times> nat. ranks_before ?ws (fst a) (fst b)"
  have ks: "extract_keywords texts = map fst (take 5 ?s)"
    by (simp add: extract_keywords_def Let_def)
  have split: "?s = take 5 ?s @ drop 5 ?s" by simp
  have sorted: "sorted_wrt ?R (take 5 ?s @ drop 5 ?s)"
    using ranked_items [of texts] by simp
  have len: "length (extract_keywords texts) \<le> 5"
    by (simp add: ks)
  have sub: "set (extract_keywords texts) \<subseteq> set ?ws"
  proof
    fix w assume "w \<in> set (extract_keywords texts)"
    then have "w \<in> fst ` set (take 5 ?s)" by (simp add: ks)
    then have "w \<in> fst ` set ?s" by (auto dest: in_set_takeD)
    then show "w \<in> set ?ws" by (simp only: items_keys)
  qed
  have shape: "\<forall>w \<in> set (extract_keywords texts).
         w \<notin> set stop_words \<and> 4 \<le> length w \<and> list_all is_letter w \<and> w \<in> set ?ws"
    using sub counted_token_shape by blast
  have order: "sorted_wrt (ranks_before ?ws) (extract_keywords texts)"
    using sorted by (simp add: ks sorted_wrt_map sorted_wrt_append del: append_take_drop_id)
  have top: "length (extract_keywords texts) = 5
             \<and> (\<forall>k \<in> set (extract_keywords texts). ranks_before ?ws k w)"
    if w: "w \<in> set ?ws" "w \<notin> set (extract_keywords texts)" for w
  proof -
    from w(1) obtain n where "(w, n) \<in> set ?s"
      using items_keys [of texts] by force
    then have "(w, n) \<in> set (take 5 ?s) \<union> set (drop 5 ?s)"
      by (metis set_append split)
    moreover from w(2) have "(w, n) \<notin> set (take 5 ?s)"
      by (force simp: ks)
    ultimately have d: "(w, n) \<in> set (drop 5 ?s)" by simp
    then have "5 < length ?s" by (cases "5 < length ?s") auto
    then have l: "length (extract_keywords texts) = 5" by (simp add: ks)
    from sorted d have "\<forall>a \<in> set (take 5 ?s). ?R a (w, n)"
      by (force simp add: sorted_wrt_append simp del: append_take_drop_id)
    then have "\<forall>k \<in> set (extract_keywords texts). ranks_before ?ws k w"
      by (auto simp: ks)
    with l show ?thesis by simp
  qed
  from len shape order top show ?thesis by blast
qed

theorem extract_keywords_ranked_witness:
  "extract_keywords [''Fire near the station, fire spreading'',
                     ''Station closed. This is about FIRE at gate9 with smoke''] =
     [''fire'', ''station'', ''near'', ''spreading'', ''closed'']
   \<and> length (extract_keywords [''Fire near the station, fire spreading'',
                     ''Station closed. This is about FIRE at gate9 with smoke'']) \<le> 5
   \<and> sorted_wrt (ranks_before (counted_tokens [''Fire near the station, fire spreading'',
                     ''Station closed. This is about FIRE at gate9 with smoke'']))
         [''fire'', ''station'', ''near'', ''spreading'', ''closed'']"
proof -
  have e: "extract_keywords [''Fire near the station, fire spreading'',
                     ''Station closed. This is about FIRE at gate9 with smoke''] =
     [''fire'', ''station'', ''near'', ''spreading'', ''closed'']"
    by code_simp
  show ?thesis
    using extract_keywords_ranked
      [of "[''Fire near the station, fire spreading'',
            ''Station closed. This is about FIRE at gate9 with smoke'']"]
    unfolding e by simp
qed

end
